theory Spec2Isabelle
  imports Main "HOL-Library.Word" "HOL-Library.Multiset"
begin

section \<open>Data model of src/ledger/transaction.ts\<close>

text \<open>
  The module prepares unsigned Bitcoin transactions for a hardware signer. Its four
  exported functions are embedded below. Everything the module imports from outside the
  file is a parameter of the model, collected in the records \<open>EsploraApiProvider\<close> and
  \<open>Imports\<close>; satoshi amounts (\<open>BigNumber\<close> values and the \<open>value\<close> of a UTXO) are
  unbounded integers.
\<close>

datatype NetworkType = Mainnet | Testnet

text \<open>
  A UTXO as this file reads it: \<open>txid\<close>, \<open>vout\<close>, \<open>value\<close> and \<open>address\<close>. The fields
  \<open>value\<close> and \<open>address\<close> are written \<open>utxo_value\<close> and \<open>utxo_address\<close>.
\<close>

record UTXO =
  txid :: string
  vout :: int
  utxo_value :: int
  utxo_address :: string

record Recipient =
  address :: string
  amountSats :: int

text \<open>
  Modelled from the spec: the type \<open>BtcFeeResponse\<close> of \<open>../types\<close> is not in the
  file; the spec describes the fetched estimate as the tiers slow, regular and fast, and
  the file reads only \<open>regular\<close>. The type of a fee rate (a JavaScript number) is left
  open as \<open>'r\<close>.
\<close>

record 'r BtcFeeResponse =
  slow :: 'r
  regular :: 'r
  fast :: 'r

text \<open>
  Modelled from the spec: \<open>ErrorCodes\<close> and \<open>ResponseError\<close> of \<open>../types\<close> are not in
  the file. The file uses the one code \<open>InSufficientBalanceWithTxFee\<close>, the other members
  of the enumeration are \<open>OtherErrorCode\<close>; a \<open>ResponseError\<close> built from a code carries
  it as its \<open>statusCode\<close>.
\<close>

datatype ErrorCodes = InSufficientBalanceWithTxFee | OtherErrorCode nat

record ResponseError_obj =
  statusCode :: ErrorCodes

definition ResponseError :: "ErrorCodes \<Rightarrow> ResponseError_obj" where
  "ResponseError code = \<lparr>statusCode = code\<rparr>"

text \<open>
  What a JavaScript \<open>throw\<close> (or a rejected promise) hands to the caller: an error
  object, a bare status code, or whatever a collaborator failed with.
\<close>

datatype thrown =
    ThrownResponseError ResponseError_obj
  | ThrownStatusCode ErrorCodes
  | CollaboratorFailure string

text \<open>The value of \<open>feeRateInput || feeRate\<close>: the caller's string or the fetched tiers.\<close>

datatype 'r feeMode = FeeRateInput string | FeeRate "'r BtcFeeResponse"

type_synonym Buffer = "8 word list"

text \<open>The two methods of the \<open>esploraProvider\<close> object that the file calls.\<close>

record EsploraApiProvider =
  getUnspentUtxos :: "string \<Rightarrow> thrown + UTXO list"
  getTransactionHex :: "string \<Rightarrow> thrown + string"

text \<open>
  The functions and constants the file imports from \<open>../api\<close>, \<open>../transactions/btc\<close>,
  \<open>../transactions/btc.utils\<close> and its libraries, as parameters: \<open>Number\<close> is the
  JavaScript conversion of the fee-rate string, \<open>toNumber\<close> is \<open>BigNumber.toNumber\<close>
  on an integer amount (the integer the resulting double denotes), \<open>Buffer_from_hex\<close> is
  \<open>Buffer.from(_, 'hex')\<close>.
\<close>

record 'r Imports =
  fetchBtcFeeRate :: "NetworkType \<Rightarrow> thrown + 'r BtcFeeResponse"
  defaultFeeRate :: "'r BtcFeeResponse"
  filterUtxos :: "UTXO list \<Rightarrow> UTXO list \<Rightarrow> UTXO list"
  getFee :: "UTXO list \<Rightarrow> UTXO list \<Rightarrow> int \<Rightarrow> int \<Rightarrow> Recipient list \<Rightarrow> 'r feeMode
               \<Rightarrow> string \<Rightarrow> NetworkType \<Rightarrow> UTXO option \<Rightarrow> thrown + (UTXO list \<times> int)"
  selectUnspentOutputs :: "int \<Rightarrow> 'r \<Rightarrow> UTXO list \<Rightarrow> UTXO option \<Rightarrow> UTXO list"
  getOrdinalsUtxos :: "EsploraApiProvider \<Rightarrow> NetworkType \<Rightarrow> string \<Rightarrow> thrown + UTXO list"
  Number :: "string \<Rightarrow> 'r"
  toNumber :: "int \<Rightarrow> int"
  Buffer_from_hex :: "string \<Rightarrow> Buffer"

text \<open>
  Modelled from the spec: \<open>sumUnspentOutputs\<close> of \<open>../transactions/btc\<close> is not in the
  file; the spec gives it as \<open>sumValues([SpendableOutput]) -> amount\<close>, the total of the
  outputs' values.
\<close>

definition sumUnspentOutputs :: "UTXO list \<Rightarrow> int" where
  "sumUnspentOutputs us = sum_list (map utxo_value us)"

text \<open>
  The calls the file makes on its network collaborators, in the order it issues them.
\<close>

datatype call =
    GetUnspentUtxos string
  | GetOrdinalsUtxos NetworkType string
  | FetchBtcFeeRate NetworkType
  | GetFee
  | GetTransactionHex string

text \<open>The object \<open>getTransactionData\<close> returns.\<close>

record TransactionData =
  selectedUTXOs :: "UTXO list"
  changeValue :: int
  fee :: int
  ordinalUtxoInPaymentAddress :: bool

section \<open>getTransactionData\<close>

text \<open>JavaScript truthiness of an optional string: \<open>undefined\<close> and \<open>''\<close> are falsy.\<close>

fun truthy :: "string option \<Rightarrow> bool" where
  "truthy None = False"
| "truthy (Some s) = (s \<noteq> [])"

text \<open>
  The value thrown at both insufficiency checks:
  \<open>throw new ResponseError(ErrorCodes.InSufficientBalanceWithTxFee).statusCode\<close>,
  that is the \<open>statusCode\<close> member of a freshly built error, not the error.
\<close>

definition insufficient :: thrown where
  "insufficient = ThrownStatusCode (statusCode (ResponseError InSufficientBalanceWithTxFee))"

text \<open>
  The function returns the calls it issued together with its outcome (\<open>Inl\<close> what was
  thrown). \<open>Promise.all\<close> starts both retrievals before either is awaited, so both calls
  are issued whatever their outcome; of two failures the model reports the first in
  argument order. The locals are \<open>sel\<close> for \<open>selectedUTXOs\<close>, \<open>sumSel\<close> for
  \<open>sumOfSelectedUTXOs\<close>, \<open>total\<close> for \<open>amountSats\<close>, \<open>newSel\<close> for
  \<open>newSelectedUnspentOutputs\<close> and \<open>fee'\<close> for \<open>fee\<close>.
\<close>

definition getTransactionData ::
  "'r Imports \<Rightarrow> EsploraApiProvider \<Rightarrow> NetworkType \<Rightarrow> string \<Rightarrow> Recipient list
     \<Rightarrow> string option \<Rightarrow> UTXO option \<Rightarrow> call list \<times> (thrown + TransactionData)" where
  "getTransactionData im esploraProvider network senderAddress recipients feeRateInput ordinalUtxo =
    (let gathered = [GetUnspentUtxos senderAddress, GetOrdinalsUtxos network senderAddress] in
     case getUnspentUtxos esploraProvider senderAddress of
       Inl e \<Rightarrow> (gathered, Inl e)
     | Inr unspentOutputs \<Rightarrow>
     (case getOrdinalsUtxos im esploraProvider network senderAddress of
       Inl e \<Rightarrow> (gathered, Inl e)
     | Inr addressOrdinalsUtxos \<Rightarrow>
       (let inPayment =
              (case ordinalUtxo of
                 Some ou \<Rightarrow> list_ex (\<lambda>utxo. txid utxo = txid ou \<and> vout utxo = vout ou) unspentOutputs
               | None \<Rightarrow> False);
            filteredUnspentOutputs = filterUtxos im unspentOutputs addressOrdinalsUtxos;
            feeRate = defaultFeeRate im;
            total = foldl (\<lambda>acc v. acc + amountSats v) 0 recipients;
            sel = selectUnspentOutputs im total
                    (if truthy feeRateInput then Number im (the feeRateInput) else regular feeRate)
                    filteredUnspentOutputs ordinalUtxo;
            sumSel = sumUnspentOutputs sel
        in if sumSel < total then (gathered, Inl insufficient)
           else
             (case fetchBtcFeeRate im network of
                Inl e \<Rightarrow> (gathered @ [FetchBtcFeeRate network], Inl e)
              | Inr fetched \<Rightarrow>
                (case getFee im filteredUnspentOutputs sel sumSel total recipients
                        (if truthy feeRateInput then FeeRateInput (the feeRateInput) else FeeRate fetched)
                        senderAddress network ordinalUtxo of
                   Inl e \<Rightarrow> (gathered @ [FetchBtcFeeRate network, GetFee], Inl e)
                 | Inr (newSel, fee') \<Rightarrow>
                     if length newSel \<noteq> length sel
                     then (if sumUnspentOutputs newSel < total + fee'
                           then (gathered @ [FetchBtcFeeRate network, GetFee], Inl insufficient)
                           else (gathered @ [FetchBtcFeeRate network, GetFee],
                                 Inr \<lparr>selectedUTXOs = newSel,
                                      changeValue = sumUnspentOutputs newSel - total - fee',
                                      fee = fee',
                                      ordinalUtxoInPaymentAddress = inPayment\<rparr>))
                     else (gathered @ [FetchBtcFeeRate network, GetFee],
                           Inr \<lparr>selectedUTXOs = sel,
                                changeValue = sumSel - total - fee',
                                fee = fee',
                                ordinalUtxoInPaymentAddress = inPayment\<rparr>))))))"

section \<open>The unsigned-transaction container\<close>

text \<open>
  \<open>Psbt\<close> is a class of bitcoinjs-lib. The model keeps what the file hands to it: the
  network it was created with, and the arguments of \<open>addInput\<close>, \<open>addOutputs\<close> and
  \<open>addOutput\<close> in call order. The library's own validation of an input or output is
  outside the file and not modelled.
\<close>

datatype btcNetwork = bitcoin | testnet

text \<open>
  \<open>Bip32Derivation\<close> and \<open>TapBip32Derivation\<close> of \<open>./types\<close> are attached verbatim and
  never inspected.
\<close>

typedecl Bip32Derivation
typedecl TapBip32Derivation

record WitnessUtxo =
  script :: Buffer
  witness_value :: int

text \<open>
  The object passed to \<open>addInput\<close>. A key that the object literal omits, or that holds
  \<open>undefined\<close>, is \<open>None\<close>.
\<close>

record PsbtInput =
  hash :: string
  index :: int
  witnessUtxo :: WitnessUtxo
  nonWitnessUtxo :: "Buffer option"
  bip32Derivation :: "Bip32Derivation list option"
  tapBip32Derivation :: "TapBip32Derivation list option"
  tapInternalKey :: "Buffer option"
  sequence :: "32 word"

record PsbtOutput =
  out_address :: string
  out_value :: int

record Psbt =
  psbt_network :: btcNetwork
  inputs :: "PsbtInput list"
  outputs :: "PsbtOutput list"

definition new_Psbt :: "btcNetwork \<Rightarrow> Psbt" where
  "new_Psbt n = \<lparr>psbt_network = n, inputs = [], outputs = []\<rparr>"

definition addInput :: "Psbt \<Rightarrow> PsbtInput \<Rightarrow> Psbt" where
  "addInput psbt inp = psbt\<lparr>inputs := inputs psbt @ [inp]\<rparr>"

definition addOutputs :: "Psbt \<Rightarrow> PsbtOutput list \<Rightarrow> Psbt" where
  "addOutputs psbt outs = psbt\<lparr>outputs := outputs psbt @ outs\<rparr>"

definition addOutput :: "Psbt \<Rightarrow> PsbtOutput \<Rightarrow> Psbt" where
  "addOutput psbt out = psbt\<lparr>outputs := outputs psbt @ [out]\<rparr>"

section \<open>The three assemblers\<close>

text \<open>
  \<open>await Promise.all(inputUTXOs.map(async (utxo) => ...))\<close>: every callback runs up to its
  \<open>await\<close> at once, so \<open>getTransactionHex\<close> is called once for each element of
  \<open>inputUTXOs\<close>, in order, before any result is stored. Each result is stored under its
  transaction id; a failed fetch rejects the whole step (of several failures the model
  reports the first in list order).
\<close>

fun fetchTransactionMap ::
  "(string \<Rightarrow> thrown + string) \<Rightarrow> (string \<Rightarrow> Buffer) \<Rightarrow> UTXO list
     \<Rightarrow> (string \<rightharpoonup> Buffer) \<Rightarrow> thrown + (string \<rightharpoonup> Buffer)" where
  "fetchTransactionMap get fromHex [] transactionMap = Inr transactionMap"
| "fetchTransactionMap get fromHex (utxo # rest) transactionMap =
     (case get (txid utxo) of
        Inl e \<Rightarrow> Inl e
      | Inr txHex \<Rightarrow>
          fetchTransactionMap get fromHex rest (transactionMap(txid utxo \<mapsto> fromHex txHex)))"

definition fetchCalls :: "UTXO list \<Rightarrow> call list" where
  "fetchCalls inputUTXOs = map (\<lambda>utxo. GetTransactionHex (txid utxo)) inputUTXOs"

text \<open>The object literal of the segwit \<open>addInput\<close> (lines 127-138 and 263-274).\<close>

definition segwitInput ::
  "(string \<rightharpoonup> Buffer) \<Rightarrow> Buffer \<Rightarrow> Bip32Derivation list option \<Rightarrow> UTXO \<Rightarrow> PsbtInput" where
  "segwitInput transactionMap witnessScript inputDerivation utxo =
     \<lparr>hash = txid utxo,
      index = vout utxo,
      witnessUtxo = \<lparr>script = witnessScript, witness_value = utxo_value utxo\<rparr>,
      nonWitnessUtxo = transactionMap (txid utxo),
      bip32Derivation = inputDerivation,
      tapBip32Derivation = None,
      tapInternalKey = None,
      sequence = 0xfffffffd\<rparr>"

text \<open>The object literal of the taproot \<open>addInput\<close> (lines 191-201 and 277-287).\<close>

definition taprootInput ::
  "Buffer \<Rightarrow> TapBip32Derivation list option \<Rightarrow> Buffer \<Rightarrow> UTXO \<Rightarrow> PsbtInput" where
  "taprootInput taprootScript inputDerivation internalKey utxo =
     \<lparr>hash = txid utxo,
      index = vout utxo,
      witnessUtxo = \<lparr>script = taprootScript, witness_value = utxo_value utxo\<rparr>,
      nonWitnessUtxo = None,
      bip32Derivation = None,
      tapBip32Derivation = inputDerivation,
      tapInternalKey = Some internalKey,
      sequence = 0xfffffffd\<rparr>"

text \<open>
  The output part, the same text in the three functions (lines 141-153, 204-216,
  291-303): one output for each recipient, then the change output when
  \<open>changeValue.toNumber() > 0\<close>. The parameter \<open>changeValue\<close> is written \<open>change\<close>.
\<close>

definition addRecipientAndChangeOutputs ::
  "'r Imports \<Rightarrow> Psbt \<Rightarrow> Recipient list \<Rightarrow> string \<Rightarrow> int \<Rightarrow> Psbt" where
  "addRecipientAndChangeOutputs im psbt recipients changeAddress change =
     (let psbt' = addOutputs psbt
            (map (\<lambda>v. \<lparr>out_address = address v, out_value = toNumber im (amountSats v)\<rparr>) recipients)
      in if toNumber im change > 0
         then addOutput psbt' \<lparr>out_address = changeAddress, out_value = toNumber im change\<rparr>
         else psbt')"

definition createNativeSegwitPsbt ::
  "'r Imports \<Rightarrow> EsploraApiProvider \<Rightarrow> NetworkType \<Rightarrow> Recipient list \<Rightarrow> string \<Rightarrow> int
     \<Rightarrow> UTXO list \<Rightarrow> Bip32Derivation list option \<Rightarrow> Buffer \<Rightarrow> call list \<times> (thrown + Psbt)" where
  "createNativeSegwitPsbt im esploraProvider network recipients changeAddress change inputUTXOs
       inputDerivation witnessScript =
     (let btcNetwork = (if network = Mainnet then bitcoin else testnet);
          psbt = new_Psbt btcNetwork
      in case fetchTransactionMap (getTransactionHex esploraProvider) (Buffer_from_hex im)
                inputUTXOs Map.empty of
           Inl e \<Rightarrow> (fetchCalls inputUTXOs, Inl e)
         | Inr transactionMap \<Rightarrow>
             (let psbt1 = foldl (\<lambda>p utxo. addInput p
                                    (segwitInput transactionMap witnessScript inputDerivation utxo))
                            psbt inputUTXOs
              in (fetchCalls inputUTXOs,
                  Inr (addRecipientAndChangeOutputs im psbt1 recipients changeAddress change))))"

definition createTaprootPsbt ::
  "'r Imports \<Rightarrow> NetworkType \<Rightarrow> Recipient list \<Rightarrow> string \<Rightarrow> int \<Rightarrow> UTXO list
     \<Rightarrow> TapBip32Derivation list option \<Rightarrow> Buffer \<Rightarrow> Buffer \<Rightarrow> Psbt" where
  "createTaprootPsbt im network recipients changeAddress change inputUTXOs inputDerivation
       taprootScript internalKey =
     (let btcNetwork = (if network = Mainnet then bitcoin else testnet);
          psbt = new_Psbt btcNetwork;
          psbt1 = foldl (\<lambda>p utxo. addInput p
                           (taprootInput taprootScript inputDerivation internalKey utxo))
                    psbt inputUTXOs
      in addRecipientAndChangeOutputs im psbt1 recipients changeAddress change)"

definition createMixedPsbt ::
  "'r Imports \<Rightarrow> EsploraApiProvider \<Rightarrow> NetworkType \<Rightarrow> Recipient list \<Rightarrow> string \<Rightarrow> int
     \<Rightarrow> UTXO list \<Rightarrow> Bip32Derivation list option \<Rightarrow> Buffer
     \<Rightarrow> TapBip32Derivation list option \<Rightarrow> Buffer \<Rightarrow> Buffer \<Rightarrow> call list \<times> (thrown + Psbt)" where
  "createMixedPsbt im esploraProvider network recipients changeAddress change inputUTXOs
       inputDerivation witnessScript taprootInputDerivation taprootScript internalKey =
     (let btcNetwork = (if network = Mainnet then bitcoin else testnet);
          psbt = new_Psbt btcNetwork
      in case fetchTransactionMap (getTransactionHex esploraProvider) (Buffer_from_hex im)
                inputUTXOs Map.empty of
           Inl e \<Rightarrow> (fetchCalls inputUTXOs, Inl e)
         | Inr transactionMap \<Rightarrow>
             (let psbt1 = foldl (\<lambda>p utxo.
                               if utxo_address utxo = changeAddress
                               then addInput p
                                      (segwitInput transactionMap witnessScript inputDerivation utxo)
                               else addInput p
                                      (taprootInput taprootScript taprootInputDerivation internalKey utxo))
                            psbt inputUTXOs
              in (fetchCalls inputUTXOs,
                  Inr (addRecipientAndChangeOutputs im psbt1 recipients changeAddress change))))"

section \<open>addSignatureToStxTransaction\<close>

text \<open>
  The deserialized Stacks transaction, as far as the file touches it:
  \<open>deserializedTx.auth.spendingCondition.signature\<close>. Every other member of the three
  objects lives in the records' extension parts. \<open>deserializeTransaction\<close> and
  \<open>createMessageSignature\<close> of @stacks/transactions and the buffer's \<open>toString('hex')\<close>
  are parameters; the first two may throw.
\<close>

record 'sig SpendingCondition =
  signature :: 'sig

record 'sc Authorization =
  spendingCondition :: 'sc

record 'au StacksTransaction =
  auth :: 'au

type_synonym ('sig, 'a, 'b, 'c) DeserializedTx =
  "((('sig, 'a) SpendingCondition_scheme, 'b) Authorization_scheme, 'c) StacksTransaction_scheme"

definition addSignatureToStxTransaction ::
  "('t \<Rightarrow> thrown + ('sig, 'a, 'b, 'c) DeserializedTx)
     \<Rightarrow> (string \<Rightarrow> thrown + 'sig) \<Rightarrow> (Buffer \<Rightarrow> string) \<Rightarrow> 't \<Rightarrow> Buffer
     \<Rightarrow> thrown + ('sig, 'a, 'b, 'c) DeserializedTx" where
  "addSignatureToStxTransaction deserializeTransaction createMessageSignature toString_hex
       transaction signatureVRS =
     (case deserializeTransaction transaction of
        Inl e \<Rightarrow> Inl e
      | Inr deserializedTx \<Rightarrow>
          (case createMessageSignature (toString_hex signatureVRS) of
             Inl e \<Rightarrow> Inl e
           | Inr sig \<Rightarrow>
               Inr (deserializedTx
                     \<lparr>auth := (auth deserializedTx)
                        \<lparr>spendingCondition := (spendingCondition (auth deserializedTx))
                           \<lparr>signature := sig\<rparr>\<rparr>\<rparr>)))"

section \<open>Observations on a run, and concrete collaborators for the worked examples\<close>

fun isFetchBtcFeeRate :: "call \<Rightarrow> bool" where
  "isFetchBtcFeeRate (FetchBtcFeeRate n) = True"
| "isFetchBtcFeeRate c = False"

text \<open>How often a run invoked the fee-rate fetch.\<close>

definition feeRateFetches :: "call list \<Rightarrow> nat" where
  "feeRateFetches cs = length (filter isFetchBtcFeeRate cs)"

text \<open>
  A selection collaborator of the shape the spec describes: the pinned output is always
  included, then candidates are taken in order until the target is covered.
\<close>

fun greedySelect :: "int \<Rightarrow> int \<Rightarrow> UTXO list \<Rightarrow> UTXO list" where
  "greedySelect target acc [] = []"
| "greedySelect target acc (u # us) =
     (if acc < target then u # greedySelect target (acc + utxo_value u) us else [])"

definition pinnedList :: "UTXO option \<Rightarrow> UTXO list" where
  "pinnedList p = (case p of Some u \<Rightarrow> [u] | None \<Rightarrow> [])"

text \<open>
  An address with the given unspent outputs; every raw transaction is found (its hex is
  its id, which is enough to tell the fetched transactions apart).
\<close>

definition exampleEsplora :: "UTXO list \<Rightarrow> EsploraApiProvider" where
  "exampleEsplora unspent =
     \<lparr>getUnspentUtxos = (\<lambda>a. Inr unspent), getTransactionHex = (\<lambda>t. Inr t)\<rparr>"

text \<open>
  Collaborators that never fail: the reconciliation answers with the pinned output and
  all candidates at the fee \<open>f\<close>; \<open>ords\<close> are the payload-marked outputs of the address;
  amounts convert to numbers unchanged.
\<close>

definition exampleImports :: "int \<Rightarrow> UTXO list \<Rightarrow> nat Imports" where
  "exampleImports f ords =
     \<lparr>fetchBtcFeeRate = (\<lambda>n. Inr \<lparr>slow = 1, regular = 2, fast = 3\<rparr>),
      defaultFeeRate = \<lparr>slow = 1, regular = 1, fast = 1\<rparr>,
      filterUtxos = (\<lambda>all excl.
         filter (\<lambda>u. \<not> list_ex (\<lambda>x. txid x = txid u \<and> vout x = vout u) excl) all),
      getFee = (\<lambda>cands sel sumSel total rs mode addr net pinned.
         Inr (pinnedList pinned @ cands, f)),
      selectUnspentOutputs = (\<lambda>total rate cands pinned.
         pinnedList pinned @ greedySelect total (sumUnspentOutputs (pinnedList pinned)) cands),
      getOrdinalsUtxos = (\<lambda>ep n a. Inr ords),
      Number = length,
      toNumber = (\<lambda>x. x),
      Buffer_from_hex = (\<lambda>s. map (of_nat \<circ> of_char) s)\<rparr>"

definition utxoA :: UTXO where
  "utxoA = \<lparr>txid = ''aa'', vout = 0, utxo_value = 30000, utxo_address = ''bc1q''\<rparr>"

definition utxoB :: UTXO where
  "utxoB = \<lparr>txid = ''aa'', vout = 1, utxo_value = 40000, utxo_address = ''bc1q''\<rparr>"

definition utxoC :: UTXO where
  "utxoC = \<lparr>txid = ''cc'', vout = 0, utxo_value = 600, utxo_address = ''bc1q''\<rparr>"

definition utxoP :: UTXO where
  "utxoP = \<lparr>txid = ''dd'', vout = 3, utxo_value = 5000, utxo_address = ''bc1p''\<rparr>"

definition payA :: "int \<Rightarrow> Recipient list" where
  "payA n = [\<lparr>address = ''A'', amountSats = n\<rparr>]"

text \<open>Two recipients, for the examples on the assemblers.\<close>

definition twoRecipients :: "Recipient list" where
  "twoRecipients = [\<lparr>address = ''A'', amountSats = 20000\<rparr>, \<lparr>address = ''B'', amountSats = 7000\<rparr>]"

text \<open>
  Stand-ins for the Stacks library in the example on \<open>addSignatureToStxTransaction\<close>: one
  transaction that deserializes, a signature encoding that accepts four hex digits, and a
  hex rendering of a buffer.
\<close>

definition exampleDeserialize ::
  "string \<Rightarrow> thrown + (string, nat, bool, string) DeserializedTx" where
  "exampleDeserialize raw =
     (if raw = ''00''
      then Inr \<lparr>auth = \<lparr>spendingCondition = \<lparr>signature = ''unsigned'', \<dots> = 7\<rparr>, \<dots> = True\<rparr>,
                \<dots> = ''payload''\<rparr>
      else Inl (CollaboratorFailure ''cannot deserialize''))"

definition exampleMessageSignature :: "string \<Rightarrow> thrown + string" where
  "exampleMessageSignature h =
     (if length h = 4 then Inr (''sig:'' @ h) else Inl (CollaboratorFailure ''Invalid signature''))"

definition exampleToHex :: "Buffer \<Rightarrow> string" where
  "exampleToHex b = concat (map (\<lambda>w. if w = 0 then ''00'' else ''ff'') b)"






lemmas example_defs = exampleImports_def exampleEsplora_def utxoA_def utxoB_def utxoC_def
  utxoP_def payA_def pinnedList_def sumUnspentOutputs_def feeRateFetches_def insufficient_def
  ResponseError_def

section \<open>Auxiliary facts\<close>

lemma foldl_amounts:
  "foldl (\<lambda>acc v. acc + amountSats v) a rs = a + sum_list (map amountSats rs)"
  by (induction rs arbitrary: a) auto

lemma sum_mset_image_nonneg:
  fixes f :: "'a \<Rightarrow> int"
  shows "\<forall>y\<in>#D. 0 \<le> f y \<Longrightarrow> 0 \<le> sum_mset (image_mset f D)"
  by (induction D) auto

lemma sum_list_mset_le:
  fixes f :: "'a \<Rightarrow> int"
  assumes "mset xs \<subseteq># mset ys" and "\<forall>y\<in>set ys. 0 \<le> f y"
  shows "sum_list (map f xs) \<le> sum_list (map f ys)"
proof -
  obtain D where D: "mset ys = mset xs + D"
    using assms(1) by (metis subset_mset.le_iff_add)
  have "sum_list (map f ys) = sum_mset (image_mset f (mset ys))"
    by (metis mset_map sum_mset_sum_list)
  also have "\<dots> = sum_mset (image_mset f (mset xs)) + sum_mset (image_mset f D)"
    by (simp add: D)
  also have "sum_mset (image_mset f (mset xs)) = sum_list (map f xs)"
    by (metis mset_map sum_mset_sum_list)
  finally have eq: "sum_list (map f ys) = sum_list (map f xs) + sum_mset (image_mset f D)" .
  have "\<forall>y\<in>#D. 0 \<le> f y"
    using assms(2) D by (metis mset_subset_eqD mset_subset_eq_add_right set_mset_mset)
  then have "0 \<le> sum_mset (image_mset f D)"
    by (rule sum_mset_image_nonneg)
  with eq show ?thesis by simp
qed

text \<open>
  A selection drawn from the candidates (a sub-multiset of them) never totals more than
  the candidates do, when no value is negative.
\<close>

lemma drawn_from_candidates:
  "mset sel \<subseteq># mset C \<Longrightarrow> \<forall>u\<in>set C. 0 \<le> utxo_value u
     \<Longrightarrow> sumUnspentOutputs sel \<le> sumUnspentOutputs C"
  unfolding sumUnspentOutputs_def by (rule sum_list_mset_le)

text \<open>
  The loop over \<open>inputUTXOs\<close> appends one input for each element and leaves the outputs
  alone; the output part appends to the outputs and leaves the inputs alone.
\<close>

lemma inputs_foldl_addInput:
  "inputs (foldl (\<lambda>p u. addInput p (f u)) p0 us) = inputs p0 @ map f us"
  by (induction us arbitrary: p0) (simp_all add: addInput_def)

lemma outputs_foldl_addInput:
  "outputs (foldl (\<lambda>p u. addInput p (f u)) p0 us) = outputs p0"
  by (induction us arbitrary: p0) (simp_all add: addInput_def)

lemma foldl_addInput_if:
  "foldl (\<lambda>p u. if c u then addInput p (a u) else addInput p (b u)) p0 us
     = foldl (\<lambda>p u. addInput p (if c u then a u else b u)) p0 us"
  by (rule arg_cong [where f = "\<lambda>g. foldl g p0 us"]) (auto simp: fun_eq_iff)

lemma outputs_addRecipientAndChangeOutputs:
  "outputs (addRecipientAndChangeOutputs im psbt recipients changeAddress change)
     = outputs psbt
       @ map (\<lambda>v. \<lparr>out_address = address v, out_value = toNumber im (amountSats v)\<rparr>) recipients
       @ (if toNumber im change > 0
          then [\<lparr>out_address = changeAddress, out_value = toNumber im change\<rparr>] else [])"
  by (simp add: addRecipientAndChangeOutputs_def addOutputs_def addOutput_def Let_def)

lemma inputs_addRecipientAndChangeOutputs:
  "inputs (addRecipientAndChangeOutputs im psbt recipients changeAddress change) = inputs psbt"
  by (simp add: addRecipientAndChangeOutputs_def addOutputs_def addOutput_def Let_def)

lemma fetchTransactionMap_lookup:
  "fetchTransactionMap get fromHex us m0 = Inr m \<Longrightarrow>
     m k = (if k \<in> txid ` set us
            then (case get k of Inr txHex \<Rightarrow> Some (fromHex txHex) | Inl e \<Rightarrow> None)
            else m0 k)"
proof (induction us arbitrary: m0)
  case Nil
  then show ?case by simp
next
  case (Cons u us)
  then show ?case
    by (cases "get (txid u)") (auto split: if_splits)
qed

lemma fetchTransactionMap_found:
  "fetchTransactionMap get fromHex us m0 = Inr m \<Longrightarrow> u \<in> set us \<Longrightarrow>
     \<exists>txHex. get (txid u) = Inr txHex"
proof (induction us arbitrary: m0)
  case Nil
  then show ?case by simp
next
  case (Cons v us)
  then show ?case
    by (cases "get (txid v)") auto
qed

lemma fetchTransactionMap_succeeds:
  "\<forall>u\<in>set us. \<exists>txHex. get (txid u) = Inr txHex \<Longrightarrow>
     \<exists>m. fetchTransactionMap get fromHex us m0 = Inr m"
  by (induction us arbitrary: m0) auto

lemma fetchTransactionMap_dom:
  "fetchTransactionMap get fromHex us m0 = Inr m \<Longrightarrow> dom m = dom m0 \<union> txid ` set us"
proof (induction us arbitrary: m0)
  case Nil
  then show ?case by simp
next
  case (Cons u us)
  then show ?case
    by (cases "get (txid u)") auto
qed

lemma inputs_createNativeSegwitPsbt:
  assumes "snd (createNativeSegwitPsbt im ep network recipients changeAddress change inputUTXOs
                  inputDerivation witnessScript) = Inr p"
  shows "\<exists>m. fetchTransactionMap (getTransactionHex ep) (Buffer_from_hex im) inputUTXOs Map.empty = Inr m
           \<and> inputs p = map (segwitInput m witnessScript inputDerivation) inputUTXOs
           \<and> outputs p = outputs (addRecipientAndChangeOutputs im (new_Psbt testnet) recipients changeAddress change)"
  using assms
  by (auto simp: createNativeSegwitPsbt_def Let_def inputs_foldl_addInput outputs_foldl_addInput
        inputs_addRecipientAndChangeOutputs outputs_addRecipientAndChangeOutputs new_Psbt_def
        split: sum.splits)

lemma inputs_createTaprootPsbt:
  "inputs (createTaprootPsbt im network recipients changeAddress change inputUTXOs inputDerivation
             taprootScript internalKey)
     = map (taprootInput taprootScript inputDerivation internalKey) inputUTXOs"
  by (simp add: createTaprootPsbt_def Let_def inputs_foldl_addInput
        inputs_addRecipientAndChangeOutputs new_Psbt_def)

lemma outputs_createTaprootPsbt:
  "outputs (createTaprootPsbt im network recipients changeAddress change inputUTXOs inputDerivation
             taprootScript internalKey)
     = outputs (addRecipientAndChangeOutputs im (new_Psbt testnet) recipients changeAddress change)"
  by (simp add: createTaprootPsbt_def Let_def outputs_foldl_addInput
        outputs_addRecipientAndChangeOutputs new_Psbt_def)

lemma inputs_createMixedPsbt:
  assumes "snd (createMixedPsbt im ep network recipients changeAddress change inputUTXOs
                  inputDerivation witnessScript taprootInputDerivation taprootScript internalKey) = Inr p"
  shows "\<exists>m. fetchTransactionMap (getTransactionHex ep) (Buffer_from_hex im) inputUTXOs Map.empty = Inr m
           \<and> inputs p = map (\<lambda>u. if utxo_address u = changeAddress
                                   then segwitInput m witnessScript inputDerivation u
                                   else taprootInput taprootScript taprootInputDerivation internalKey u)
                            inputUTXOs
           \<and> outputs p = outputs (addRecipientAndChangeOutputs im (new_Psbt testnet) recipients changeAddress change)"
  using assms
  by (auto simp: createMixedPsbt_def Let_def foldl_addInput_if inputs_foldl_addInput
        outputs_foldl_addInput inputs_addRecipientAndChangeOutputs
        outputs_addRecipientAndChangeOutputs new_Psbt_def
        split: sum.splits)

lemma outputs_expected:
  "outputs (addRecipientAndChangeOutputs im (new_Psbt n) recipients changeAddress change)
     = map (\<lambda>v. \<lparr>out_address = address v, out_value = toNumber im (amountSats v)\<rparr>) recipients
       @ (if toNumber im change > 0
          then [\<lparr>out_address = changeAddress, out_value = toNumber im change\<rparr>] else [])"
  by (simp add: outputs_addRecipientAndChangeOutputs new_Psbt_def)







section \<open>Claims about getTransactionData\<close>

text \<open>
  C1 (as amended). In every successful run the returned \<open>changeValue\<close> equals the sum of
  the values of the returned \<open>selectedUTXOs\<close> minus the sum of the recipient amounts
  minus the returned \<open>fee\<close>. It is non-negative whenever the returned selection differs
  in length from the provisional selection \<open>sel\<close> (the re-validation ran). When the
  lengths agree the provisional selection is returned and only the target is known to be
  covered, not target plus fee.
\<close>

theorem getTransactionData_change:
  assumes run: "snd (getTransactionData im ep network sender recipients feeRateInput ordinalUtxo)
                  = Inr res"
    and unspent: "getUnspentUtxos ep sender = Inr unspent"
    and ords: "getOrdinalsUtxos im ep network sender = Inr ords"
    and sel: "sel = selectUnspentOutputs im (sum_list (map amountSats recipients))
                 (if truthy feeRateInput then Number im (the feeRateInput)
                  else regular (defaultFeeRate im))
                 (filterUtxos im unspent ords) ordinalUtxo"
  shows "changeValue res = sum_list (map utxo_value (selectedUTXOs res))
             - sum_list (map amountSats recipients) - fee res
       \<and> (length (selectedUTXOs res) \<noteq> length sel \<longrightarrow> 0 \<le> changeValue res)
       \<and> (length (selectedUTXOs res) = length sel \<longrightarrow>
            selectedUTXOs res = sel
            \<and> sum_list (map amountSats recipients) \<le> sum_list (map utxo_value sel))"
  using run unspent ords sel
  by (auto simp: getTransactionData_def Let_def foldl_amounts sumUnspentOutputs_def
           split: sum.splits if_splits prod.splits)

text \<open>
  C1 as stated fails: candidates of 30000 and 40000 sats, one recipient of 69500 sats.
  The provisional selection takes both outputs and covers the target; the reconciliation
  returns the same two outputs with a fee of 1500; the lengths agree, nothing is
  re-checked, and the run succeeds with a change of -1000.
\<close>

theorem getTransactionData_negative_change:
  "snd (getTransactionData (exampleImports 1500 []) (exampleEsplora [utxoA, utxoB]) Mainnet
          ''bc1q'' (payA 69500) None None)
     = Inr \<lparr>selectedUTXOs = [utxoA, utxoB], changeValue = - 1000, fee = 1500,
            ordinalUtxoInPaymentAddress = False\<rparr>
   \<and> - 1000 < (0::int)"
  by (simp add: getTransactionData_def example_defs)

text \<open>
  The amended C1 at work: a recipient of 20000 sats; the provisional selection is the
  first output, the reconciliation grows it to both, and the change is 48500.
\<close>

theorem getTransactionData_change_witness:
  "snd (getTransactionData (exampleImports 1500 []) (exampleEsplora [utxoA, utxoB]) Mainnet
          ''bc1q'' (payA 20000) None None)
     = Inr \<lparr>selectedUTXOs = [utxoA, utxoB], changeValue = 48500, fee = 1500,
            ordinalUtxoInPaymentAddress = False\<rparr>
   \<and> length [utxoA, utxoB] \<noteq> length [utxoA]
   \<and> (48500::int) = sum_list (map utxo_value [utxoA, utxoB])
                      - sum_list (map amountSats (payA 20000)) - 1500
   \<and> (0::int) \<le> 48500"
proof -
  let ?im = "exampleImports 1500 [] :: nat Imports"
  let ?ep = "exampleEsplora [utxoA, utxoB]"
  let ?res = "\<lparr>selectedUTXOs = [utxoA, utxoB], changeValue = 48500, fee = 1500,
               ordinalUtxoInPaymentAddress = False\<rparr>"
  have run: "snd (getTransactionData ?im ?ep Mainnet ''bc1q'' (payA 20000) None None) = Inr ?res"
    by (simp add: getTransactionData_def example_defs)
  have unspent: "getUnspentUtxos ?ep ''bc1q'' = Inr [utxoA, utxoB]"
    by (simp add: example_defs)
  have ords: "getOrdinalsUtxos ?im ?ep Mainnet ''bc1q'' = Inr []"
    by (simp add: example_defs)
  have sel: "[utxoA] = selectUnspentOutputs ?im (sum_list (map amountSats (payA 20000)))
                 (if truthy None then Number ?im (the None) else regular (defaultFeeRate ?im))
                 (filterUtxos ?im [utxoA, utxoB] []) None"
    by (simp add: example_defs)
  from getTransactionData_change [OF run unspent ords sel] run show ?thesis
    by (simp add: example_defs)
qed

text \<open>
  C2 (as amended). For recipients and candidates \<open>C\<close> (the filtered unspent outputs) with
  \<open>sum(C)\<close> below the sum of the recipient amounts, and a provisional selection whose
  total does not exceed \<open>sum(C)\<close> (as when it is drawn from \<open>C\<close> and no pinned output
  from outside \<open>C\<close> is added), the run fails with the insufficiency error and the
  fee-rate fetch is invoked zero times.
\<close>

theorem getTransactionData_fast_reject:
  assumes unspent: "getUnspentUtxos ep sender = Inr unspent"
    and ords: "getOrdinalsUtxos im ep network sender = Inr ords"
    and drawn: "sumUnspentOutputs
                  (selectUnspentOutputs im (sum_list (map amountSats recipients))
                     (if truthy feeRateInput then Number im (the feeRateInput)
                      else regular (defaultFeeRate im))
                     (filterUtxos im unspent ords) ordinalUtxo)
                \<le> sumUnspentOutputs (filterUtxos im unspent ords)"
    and short: "sumUnspentOutputs (filterUtxos im unspent ords)
                < sum_list (map amountSats recipients)"
  shows "snd (getTransactionData im ep network sender recipients feeRateInput ordinalUtxo)
           = Inl insufficient
       \<and> feeRateFetches
           (fst (getTransactionData im ep network sender recipients feeRateInput ordinalUtxo)) = 0"
  using assms
  by (simp add: getTransactionData_def Let_def foldl_amounts feeRateFetches_def)

text \<open>
  C2 as stated fails when a pinned output is supplied: the only candidate holds 600 sats,
  the recipient wants 1000, and the pinned output of 5000 sats (not a candidate) is forced
  into the provisional selection. The fast reject tests the selection's total, so the run
  goes on, fetches the fee rate once and succeeds.
\<close>

theorem getTransactionData_pinned_passes_fast_reject:
  "sumUnspentOutputs (filterUtxos (exampleImports 1500 [] :: nat Imports) [utxoC] [])
     < sum_list (map amountSats (payA 1000))
   \<and> feeRateFetches
       (fst (getTransactionData (exampleImports 1500 []) (exampleEsplora [utxoC]) Mainnet
               ''bc1q'' (payA 1000) None (Some utxoP))) = 1
   \<and> snd (getTransactionData (exampleImports 1500 []) (exampleEsplora [utxoC]) Mainnet
            ''bc1q'' (payA 1000) None (Some utxoP))
       = Inr \<lparr>selectedUTXOs = [utxoP, utxoC], changeValue = 3100, fee = 1500,
              ordinalUtxoInPaymentAddress = False\<rparr>"
  by (simp add: getTransactionData_def example_defs)

text \<open>
  The amended C2 at work, on the spec's scenario of candidates summing to less than the
  amount: 70000 sats of candidates against a recipient of 100000.
\<close>

theorem getTransactionData_fast_reject_witness:
  "sumUnspentOutputs (filterUtxos (exampleImports 1500 [] :: nat Imports) [utxoA, utxoB] [])
     < sum_list (map amountSats (payA 100000))
   \<and> snd (getTransactionData (exampleImports 1500 []) (exampleEsplora [utxoA, utxoB]) Mainnet
            ''bc1q'' (payA 100000) None None) = Inl insufficient
   \<and> feeRateFetches
       (fst (getTransactionData (exampleImports 1500 []) (exampleEsplora [utxoA, utxoB]) Mainnet
               ''bc1q'' (payA 100000) None None)) = 0"
proof -
  let ?im = "exampleImports 1500 [] :: nat Imports"
  let ?ep = "exampleEsplora [utxoA, utxoB]"
  have unspent: "getUnspentUtxos ?ep ''bc1q'' = Inr [utxoA, utxoB]"
    by (simp add: example_defs)
  have ords: "getOrdinalsUtxos ?im ?ep Mainnet ''bc1q'' = Inr []"
    by (simp add: example_defs)
  have short: "sumUnspentOutputs (filterUtxos ?im [utxoA, utxoB] [])
                 < sum_list (map amountSats (payA 100000))"
    by (simp add: example_defs)
  have drawn: "sumUnspentOutputs
                 (selectUnspentOutputs ?im (sum_list (map amountSats (payA 100000)))
                    (if truthy None then Number ?im (the None) else regular (defaultFeeRate ?im))
                    (filterUtxos ?im [utxoA, utxoB] []) None)
               \<le> sumUnspentOutputs (filterUtxos ?im [utxoA, utxoB] [])"
    by (rule drawn_from_candidates) (simp_all add: example_defs)
  from getTransactionData_fast_reject [OF unspent ords drawn short] short show ?thesis
    by blast
qed

text \<open>
  C4 (as amended). Whenever \<open>getTransactionData\<close> fails for insufficiency, at the
  provisional fast reject or at the re-validation after reconciliation, what reaches the
  caller is the status code of a \<open>ResponseError\<close> built from
  \<open>ErrorCodes.InSufficientBalanceWithTxFee\<close>: the bare code is thrown, the same at both
  checkpoints, not an error object carrying it. Nothing is retried: the run ends at the
  checkpoint with the two retrievals (and, at the second, one fee-rate fetch and one
  reconciliation) behind it, and no run issues any call twice.
\<close>

theorem getTransactionData_insufficient:
  assumes unspent: "getUnspentUtxos ep sender = Inr unspent"
    and ords: "getOrdinalsUtxos im ep network sender = Inr ords"
    and target: "target = sum_list (map amountSats recipients)"
    and sel: "sel = selectUnspentOutputs im target
                 (if truthy feeRateInput then Number im (the feeRateInput)
                  else regular (defaultFeeRate im))
                 (filterUtxos im unspent ords) ordinalUtxo"
  shows "(sumUnspentOutputs sel < target \<longrightarrow>
            getTransactionData im ep network sender recipients feeRateInput ordinalUtxo
              = ([GetUnspentUtxos sender, GetOrdinalsUtxos network sender],
                 Inl (ThrownStatusCode InSufficientBalanceWithTxFee)))
       \<and> (\<not> sumUnspentOutputs sel < target
            \<and> fetchBtcFeeRate im network = Inr fetched
            \<and> getFee im (filterUtxos im unspent ords) sel (sumUnspentOutputs sel) target recipients
                  (if truthy feeRateInput then FeeRateInput (the feeRateInput) else FeeRate fetched)
                  sender network ordinalUtxo = Inr (newSel, f)
            \<and> length newSel \<noteq> length sel
            \<and> sumUnspentOutputs newSel < target + f \<longrightarrow>
            getTransactionData im ep network sender recipients feeRateInput ordinalUtxo
              = ([GetUnspentUtxos sender, GetOrdinalsUtxos network sender,
                  FetchBtcFeeRate network, GetFee],
                 Inl (ThrownStatusCode InSufficientBalanceWithTxFee)))
       \<and> distinct (fst (getTransactionData im ep network sender recipients feeRateInput ordinalUtxo))"
  using assms
  by (auto simp: getTransactionData_def Let_def foldl_amounts insufficient_def ResponseError_def
           split: sum.splits prod.splits)

text \<open>
  C4 as stated fails on "a typed error carrying a code": in the fast reject of 70000 sats
  of candidates against 100000, the thrown value is the status code itself and differs
  from the \<open>ResponseError\<close> object with that code.
\<close>

theorem getTransactionData_throws_status_code:
  "snd (getTransactionData (exampleImports 1500 []) (exampleEsplora [utxoA, utxoB]) Mainnet
          ''bc1q'' (payA 100000) None None)
     = Inl (ThrownStatusCode InSufficientBalanceWithTxFee)
   \<and> snd (getTransactionData (exampleImports 1500 []) (exampleEsplora [utxoA, utxoB]) Mainnet
          ''bc1q'' (payA 100000) None None)
     \<noteq> Inl (ThrownResponseError (ResponseError InSufficientBalanceWithTxFee))"
  by (simp add: getTransactionData_def example_defs)

text \<open>
  The amended C4 at both checkpoints: the fast reject above, and a reconciliation that
  grows the selection from one output to two at a fee of 60000, which 70000 sats cannot
  cover for a recipient of 20000.
\<close>

theorem getTransactionData_insufficient_witness:
  "getTransactionData (exampleImports 1500 []) (exampleEsplora [utxoA, utxoB]) Mainnet
          ''bc1q'' (payA 100000) None None
     = ([GetUnspentUtxos ''bc1q'', GetOrdinalsUtxos Mainnet ''bc1q''],
        Inl (ThrownStatusCode InSufficientBalanceWithTxFee))
   \<and> getTransactionData (exampleImports 60000 []) (exampleEsplora [utxoA, utxoB]) Mainnet
          ''bc1q'' (payA 20000) None None
     = ([GetUnspentUtxos ''bc1q'', GetOrdinalsUtxos Mainnet ''bc1q'', FetchBtcFeeRate Mainnet, GetFee],
        Inl (ThrownStatusCode InSufficientBalanceWithTxFee))"
proof -
  let ?ep = "exampleEsplora [utxoA, utxoB]"
  have unspent: "getUnspentUtxos ?ep ''bc1q'' = Inr [utxoA, utxoB]"
    by (simp add: example_defs)
  have ords: "getOrdinalsUtxos (exampleImports f []) ?ep Mainnet ''bc1q'' = Inr []" for f
    by (simp add: example_defs)
  let ?im1 = "exampleImports 1500 [] :: nat Imports"
  have sel1: "[utxoA, utxoB] = selectUnspentOutputs ?im1 100000
                 (if truthy None then Number ?im1 (the None) else regular (defaultFeeRate ?im1))
                 (filterUtxos ?im1 [utxoA, utxoB] []) None"
    by (simp add: example_defs)
  have total1: "(100000::int) = sum_list (map amountSats (payA 100000))"
    by (simp add: example_defs)
  have low1: "sumUnspentOutputs [utxoA, utxoB] < 100000"
    by (simp add: example_defs)
  let ?im2 = "exampleImports 60000 [] :: nat Imports"
  have sel2: "[utxoA] = selectUnspentOutputs ?im2 20000
                 (if truthy None then Number ?im2 (the None) else regular (defaultFeeRate ?im2))
                 (filterUtxos ?im2 [utxoA, utxoB] []) None"
    by (simp add: example_defs)
  have total2: "(20000::int) = sum_list (map amountSats (payA 20000))"
    by (simp add: example_defs)
  have cond2: "\<not> sumUnspentOutputs [utxoA] < 20000
            \<and> fetchBtcFeeRate ?im2 Mainnet = Inr \<lparr>slow = 1, regular = 2, fast = 3\<rparr>
            \<and> getFee ?im2 (filterUtxos ?im2 [utxoA, utxoB] []) [utxoA] (sumUnspentOutputs [utxoA]) 20000 (payA 20000)
                  (if truthy None then FeeRateInput (the None) else FeeRate \<lparr>slow = 1, regular = 2, fast = 3\<rparr>)
                  ''bc1q'' Mainnet None = Inr ([utxoA, utxoB], 60000)
            \<and> length [utxoA, utxoB] \<noteq> length [utxoA]
            \<and> sumUnspentOutputs [utxoA, utxoB] < 20000 + 60000"
    by (simp add: example_defs)
  from getTransactionData_insufficient [OF unspent ords total1 sel1] low1
  have one: "getTransactionData ?im1 ?ep Mainnet ''bc1q'' (payA 100000) None None
     = ([GetUnspentUtxos ''bc1q'', GetOrdinalsUtxos Mainnet ''bc1q''],
        Inl (ThrownStatusCode InSufficientBalanceWithTxFee))"
    by blast
  from getTransactionData_insufficient [OF unspent ords total2 sel2,
      of "\<lparr>slow = 1, regular = 2, fast = 3\<rparr>" "[utxoA, utxoB]" 60000] cond2
  have two: "getTransactionData ?im2 ?ep Mainnet ''bc1q'' (payA 20000) None None
     = ([GetUnspentUtxos ''bc1q'', GetOrdinalsUtxos Mainnet ''bc1q'', FetchBtcFeeRate Mainnet, GetFee],
        Inl (ThrownStatusCode InSufficientBalanceWithTxFee))"
    by blast
  from one two show ?thesis by (rule conjI)
qed

text \<open>
  C5. When a pinned output is supplied, the returned \<open>ordinalUtxoInPaymentAddress\<close> is
  true exactly when some member of the fetched unspent set has the pinned output's
  \<open>txid\<close> and \<open>vout\<close>; when none is supplied it is false. The flag is computed from the
  unspent set as fetched, before filtering, and returned as computed.
\<close>

theorem getTransactionData_pinned_flag:
  assumes run: "snd (getTransactionData im ep network sender recipients feeRateInput ordinalUtxo)
                  = Inr res"
    and unspent: "getUnspentUtxos ep sender = Inr unspent"
  shows "ordinalUtxoInPaymentAddress res =
           (case ordinalUtxo of
              Some ou \<Rightarrow> (\<exists>u\<in>set unspent. txid u = txid ou \<and> vout u = vout ou)
            | None \<Rightarrow> False)"
  using run unspent
  by (auto simp: getTransactionData_def Let_def list_ex_iff
           split: sum.splits if_splits prod.splits option.splits)

text \<open>
  C5 at work: the pinned output is the first unspent output of the address (and marked as
  carrying a payload, so it is not a candidate); the flag is true.
\<close>

theorem getTransactionData_pinned_flag_witness:
  "snd (getTransactionData (exampleImports 1500 [utxoA]) (exampleEsplora [utxoA, utxoB]) Mainnet
          ''bc1q'' (payA 20000) None (Some utxoA))
     = Inr \<lparr>selectedUTXOs = [utxoA, utxoB], changeValue = 48500, fee = 1500,
            ordinalUtxoInPaymentAddress = True\<rparr>
   \<and> (\<exists>u\<in>set [utxoA, utxoB]. txid u = txid utxoA \<and> vout u = vout utxoA)"
proof -
  let ?im = "exampleImports 1500 [utxoA] :: nat Imports"
  let ?ep = "exampleEsplora [utxoA, utxoB]"
  let ?res = "\<lparr>selectedUTXOs = [utxoA, utxoB], changeValue = 48500, fee = 1500,
               ordinalUtxoInPaymentAddress = True\<rparr>"
  have run: "snd (getTransactionData ?im ?ep Mainnet ''bc1q'' (payA 20000) None (Some utxoA)) = Inr ?res"
    by (simp add: getTransactionData_def example_defs)
  have unspent: "getUnspentUtxos ?ep ''bc1q'' = Inr [utxoA, utxoB]"
    by (simp add: example_defs)
  from getTransactionData_pinned_flag [OF run unspent] run show ?thesis
    by simp
qed

section \<open>Claims about the assemblers\<close>

text \<open>
  C3 (as amended). In \<open>createNativeSegwitPsbt\<close>, for a selection of N inputs referencing
  K distinct origin transaction ids, exactly N raw-transaction fetches are issued: one for
  each selected input, in input order, so an id shared by several inputs is fetched once
  for each of them. What is keyed by transaction id is the map of the results: after a
  successful fetch step it holds exactly K entries.
\<close>

theorem createNativeSegwitPsbt_fetches:
  "fst (createNativeSegwitPsbt im ep network recipients changeAddress change inputUTXOs
          inputDerivation witnessScript)
     = map (\<lambda>utxo. GetTransactionHex (txid utxo)) inputUTXOs
   \<and> length (fst (createNativeSegwitPsbt im ep network recipients changeAddress change inputUTXOs
                    inputDerivation witnessScript)) = length inputUTXOs
   \<and> (fetchTransactionMap (getTransactionHex ep) (Buffer_from_hex im) inputUTXOs Map.empty = Inr m
        \<longrightarrow> card (dom m) = length (remdups (map txid inputUTXOs)))"
proof -
  have calls: "fst (createNativeSegwitPsbt im ep network recipients changeAddress change inputUTXOs
          inputDerivation witnessScript) = fetchCalls inputUTXOs"
    by (simp add: createNativeSegwitPsbt_def Let_def split: sum.splits)
  have "card (dom m) = length (remdups (map txid inputUTXOs))"
    if "fetchTransactionMap (getTransactionHex ep) (Buffer_from_hex im) inputUTXOs Map.empty = Inr m"
    using fetchTransactionMap_dom [OF that] by (simp add: length_remdups_card_conv)
  with calls show ?thesis
    by (simp add: fetchCalls_def)
qed

text \<open>
  C3 as stated fails: two selected inputs are outputs 0 and 1 of the same transaction
  (K = 1), and two fetches are issued.
\<close>

theorem createNativeSegwitPsbt_fetches_per_input:
  "length (fst (createNativeSegwitPsbt (exampleImports 0 []) (exampleEsplora []) Mainnet
                  (payA 1000) ''bc1q'' 0 [utxoA, utxoB] None []))
     \<noteq> length (remdups (map txid [utxoA, utxoB]))"
  by (simp add: createNativeSegwitPsbt_def fetchCalls_def example_defs)

text \<open>
  The amended C3 at work: three inputs over two transactions, three fetches, a map of two
  entries.
\<close>

theorem createNativeSegwitPsbt_fetches_witness:
  "fst (createNativeSegwitPsbt (exampleImports 0 []) (exampleEsplora []) Mainnet
          (payA 1000) ''bc1q'' 0 [utxoA, utxoB, utxoC] None [])
     = [GetTransactionHex ''aa'', GetTransactionHex ''aa'', GetTransactionHex ''cc'']
   \<and> fetchTransactionMap (getTransactionHex (exampleEsplora []))
         (Buffer_from_hex (exampleImports 0 [] :: nat Imports)) [utxoA, utxoB, utxoC] Map.empty
       = Inr [''aa'' \<mapsto> [97, 97], ''cc'' \<mapsto> [99, 99]]
   \<and> card (dom [''aa'' \<mapsto> [97, 97 :: 8 word], ''cc'' \<mapsto> [99, 99]]) = 2"
proof -
  let ?im = "exampleImports 0 [] :: nat Imports"
  let ?m = "[''aa'' \<mapsto> [97, 97 :: 8 word], ''cc'' \<mapsto> [99, 99]]"
  have m: "fetchTransactionMap (getTransactionHex (exampleEsplora [])) (Buffer_from_hex ?im)
             [utxoA, utxoB, utxoC] Map.empty = Inr ?m"
    by (simp add: example_defs)
  from createNativeSegwitPsbt_fetches [of ?im "exampleEsplora []" Mainnet "payA 1000" "''bc1q''" 0
      "[utxoA, utxoB, utxoC]" None "[]" ?m] m
  show ?thesis
    by (simp add: example_defs)
qed

text \<open>
  C6. In each of the three assemblers the emitted outputs are one output for each
  recipient, in recipient order, followed by exactly one change output to the change
  address when \<open>changeValue > 0\<close>, and by nothing when \<open>changeValue \<le> 0\<close>. The code
  tests the sign after \<open>toNumber()\<close>; the conversion of an integer amount keeps its sign,
  which is the hypothesis \<open>sign\<close> on the conversion parameter.
\<close>

theorem assembler_outputs:
  assumes sign: "(0 < toNumber im change) = (0 < change)"
    and expected: "expected =
       map (\<lambda>v. \<lparr>out_address = address v, out_value = toNumber im (amountSats v)\<rparr>) recipients
       @ (if 0 < change then [\<lparr>out_address = changeAddress, out_value = toNumber im change\<rparr>]
          else [])"
  shows "(snd (createNativeSegwitPsbt im ep network recipients changeAddress change inputUTXOs
                 inputDerivation witnessScript) = Inr p \<longrightarrow> outputs p = expected)
       \<and> outputs (createTaprootPsbt im network recipients changeAddress change inputUTXOs
                    taprootInputDerivation taprootScript internalKey) = expected
       \<and> (snd (createMixedPsbt im ep network recipients changeAddress change inputUTXOs
                 inputDerivation witnessScript taprootInputDerivation taprootScript internalKey)
            = Inr q \<longrightarrow> outputs q = expected)"
proof (intro conjI impI)
  assume "snd (createNativeSegwitPsbt im ep network recipients changeAddress change inputUTXOs
                 inputDerivation witnessScript) = Inr p"
  from inputs_createNativeSegwitPsbt [OF this] show "outputs p = expected"
    using sign expected by (auto simp: outputs_expected)
next
  show "outputs (createTaprootPsbt im network recipients changeAddress change inputUTXOs
                    taprootInputDerivation taprootScript internalKey) = expected"
    using sign expected by (simp add: outputs_createTaprootPsbt outputs_expected)
next
  assume "snd (createMixedPsbt im ep network recipients changeAddress change inputUTXOs
                 inputDerivation witnessScript taprootInputDerivation taprootScript internalKey)
            = Inr q"
  from inputs_createMixedPsbt [OF this] show "outputs q = expected"
    using sign expected by (auto simp: outputs_expected)
qed

text \<open>
  C6 at work: two recipients and a change of 21500 give three outputs in each assembler;
  a change of 0 gives the two recipient outputs only.
\<close>

theorem assembler_outputs_witness:
  "(0 < toNumber (exampleImports 0 [] :: nat Imports) 21500) = (0 < (21500::int))
   \<and> map out_address (outputs (projr (snd (createNativeSegwitPsbt (exampleImports 0 [] :: nat Imports)
          (exampleEsplora []) Mainnet twoRecipients ''bc1q'' 21500 [utxoA, utxoB] None [1]))))
       = [''A'', ''B'', ''bc1q'']
   \<and> map out_address (outputs (createTaprootPsbt (exampleImports 0 [] :: nat Imports) Mainnet
          twoRecipients ''bc1q'' 21500 [utxoA, utxoB] None [2] [3])) = [''A'', ''B'', ''bc1q'']
   \<and> map out_value (outputs (projr (snd (createMixedPsbt (exampleImports 0 [] :: nat Imports)
          (exampleEsplora []) Mainnet twoRecipients ''bc1q'' 21500 [utxoA, utxoB] None [1] None [2] [3]))))
       = [20000, 7000, 21500]
   \<and> (0 < toNumber (exampleImports 0 [] :: nat Imports) 0) = (0 < (0::int))
   \<and> map out_address (outputs (createTaprootPsbt (exampleImports 0 [] :: nat Imports) Mainnet
          twoRecipients ''bc1q'' 0 [utxoA, utxoB] None [2] [3])) = [''A'', ''B'']"
proof -
  let ?im = "exampleImports 0 [] :: nat Imports"
  let ?ep = "exampleEsplora []"
  let ?sw = "createNativeSegwitPsbt ?im ?ep Mainnet twoRecipients ''bc1q'' 21500 [utxoA, utxoB] None [1]"
  let ?mx = "createMixedPsbt ?im ?ep Mainnet twoRecipients ''bc1q'' 21500 [utxoA, utxoB] None [1] None [2] [3]"
  have sign1: "(0 < toNumber ?im 21500) = (0 < (21500::int))"
    by (simp add: example_defs)
  have sign0: "(0 < toNumber ?im 0) = (0 < (0::int))"
    by (simp add: example_defs)
  have sw: "snd ?sw = Inr (projr (snd ?sw))"
    by (simp add: createNativeSegwitPsbt_def example_defs)
  have mx: "snd ?mx = Inr (projr (snd ?mx))"
    by (simp add: createMixedPsbt_def example_defs)
  note pos = assembler_outputs [OF sign1 refl, where recipients = twoRecipients
      and changeAddress = "''bc1q''" and ep = ?ep and network = Mainnet
      and inputUTXOs = "[utxoA, utxoB]" and inputDerivation = None and witnessScript = "[1]"
      and taprootInputDerivation = None and taprootScript = "[2]" and internalKey = "[3]"
      and p = "projr (snd ?sw)" and q = "projr (snd ?mx)"]
  note zero = assembler_outputs [OF sign0 refl, where recipients = twoRecipients
      and changeAddress = "''bc1q''" and ep = ?ep and network = Mainnet
      and inputUTXOs = "[utxoA, utxoB]" and inputDerivation = None and witnessScript = "[1]"
      and taprootInputDerivation = None and taprootScript = "[2]" and internalKey = "[3]"]
  from pos sw mx have
    "outputs (projr (snd ?sw)) = [\<lparr>out_address = ''A'', out_value = 20000\<rparr>,
        \<lparr>out_address = ''B'', out_value = 7000\<rparr>, \<lparr>out_address = ''bc1q'', out_value = 21500\<rparr>]"
    "outputs (createTaprootPsbt ?im Mainnet twoRecipients ''bc1q'' 21500 [utxoA, utxoB] None [2] [3])
       = [\<lparr>out_address = ''A'', out_value = 20000\<rparr>,
        \<lparr>out_address = ''B'', out_value = 7000\<rparr>, \<lparr>out_address = ''bc1q'', out_value = 21500\<rparr>]"
    "outputs (projr (snd ?mx)) = [\<lparr>out_address = ''A'', out_value = 20000\<rparr>,
        \<lparr>out_address = ''B'', out_value = 7000\<rparr>, \<lparr>out_address = ''bc1q'', out_value = 21500\<rparr>]"
    by (simp_all add: twoRecipients_def exampleImports_def)
  moreover from zero have
    "outputs (createTaprootPsbt ?im Mainnet twoRecipients ''bc1q'' 0 [utxoA, utxoB] None [2] [3])
       = [\<lparr>out_address = ''A'', out_value = 20000\<rparr>, \<lparr>out_address = ''B'', out_value = 7000\<rparr>]"
    by (simp add: twoRecipients_def exampleImports_def)
  ultimately show ?thesis
    using sign1 sign0 by simp
qed

text \<open>
  C7. Every input added by any of the three assemblers carries the sequence number
  \<open>0xFFFFFFFD\<close>, for every input list and in both branches of the mixed assembler.
\<close>

theorem assembler_sequence:
  "(snd (createNativeSegwitPsbt im ep network recipients changeAddress change inputUTXOs
           inputDerivation witnessScript) = Inr p
      \<longrightarrow> (\<forall>inp\<in>set (inputs p). sequence inp = 0xfffffffd))
   \<and> (\<forall>inp\<in>set (inputs (createTaprootPsbt im network recipients changeAddress change inputUTXOs
                             taprootInputDerivation taprootScript internalKey)).
        sequence inp = 0xfffffffd)
   \<and> (snd (createMixedPsbt im ep network recipients changeAddress change inputUTXOs
           inputDerivation witnessScript taprootInputDerivation taprootScript internalKey) = Inr q
      \<longrightarrow> (\<forall>inp\<in>set (inputs q). sequence inp = 0xfffffffd))"
proof (intro conjI impI)
  assume "snd (createNativeSegwitPsbt im ep network recipients changeAddress change inputUTXOs
           inputDerivation witnessScript) = Inr p"
  from inputs_createNativeSegwitPsbt [OF this]
  show "\<forall>inp\<in>set (inputs p). sequence inp = 0xfffffffd"
    by (auto simp: segwitInput_def)
next
  show "\<forall>inp\<in>set (inputs (createTaprootPsbt im network recipients changeAddress change inputUTXOs
                             taprootInputDerivation taprootScript internalKey)).
        sequence inp = 0xfffffffd"
    by (auto simp: inputs_createTaprootPsbt taprootInput_def)
next
  assume "snd (createMixedPsbt im ep network recipients changeAddress change inputUTXOs
           inputDerivation witnessScript taprootInputDerivation taprootScript internalKey) = Inr q"
  from inputs_createMixedPsbt [OF this]
  show "\<forall>inp\<in>set (inputs q). sequence inp = 0xfffffffd"
    by (auto simp: segwitInput_def taprootInput_def)
qed

text \<open>C7 at work: two inputs, one of each address, through the three assemblers.\<close>

theorem assembler_sequence_witness:
  "map sequence (inputs (projr (snd (createNativeSegwitPsbt (exampleImports 0 [] :: nat Imports)
          (exampleEsplora []) Mainnet twoRecipients ''bc1q'' 21500 [utxoA, utxoP] None [1]))))
     = [0xfffffffd, 0xfffffffd]
   \<and> map sequence (inputs (createTaprootPsbt (exampleImports 0 [] :: nat Imports) Mainnet
          twoRecipients ''bc1q'' 21500 [utxoA, utxoP] None [2] [3])) = [0xfffffffd, 0xfffffffd]
   \<and> map sequence (inputs (projr (snd (createMixedPsbt (exampleImports 0 [] :: nat Imports)
          (exampleEsplora []) Mainnet twoRecipients ''bc1q'' 21500 [utxoA, utxoP] None [1] None [2] [3]))))
     = [0xfffffffd, 0xfffffffd]"
proof -
  let ?im = "exampleImports 0 [] :: nat Imports"
  let ?ep = "exampleEsplora []"
  let ?sw = "createNativeSegwitPsbt ?im ?ep Mainnet twoRecipients ''bc1q'' 21500 [utxoA, utxoP] None [1]"
  let ?tr = "createTaprootPsbt ?im Mainnet twoRecipients ''bc1q'' 21500 [utxoA, utxoP] None [2] [3]"
  let ?mx = "createMixedPsbt ?im ?ep Mainnet twoRecipients ''bc1q'' 21500 [utxoA, utxoP] None [1] None [2] [3]"
  have sw: "snd ?sw = Inr (projr (snd ?sw))"
    by (simp add: createNativeSegwitPsbt_def example_defs)
  have mx: "snd ?mx = Inr (projr (snd ?mx))"
    by (simp add: createMixedPsbt_def example_defs)
  have len: "length (inputs (projr (snd ?sw))) = 2" "length (inputs ?tr) = 2"
    "length (inputs (projr (snd ?mx))) = 2"
    by (simp_all add: createNativeSegwitPsbt_def createTaprootPsbt_def createMixedPsbt_def
          addRecipientAndChangeOutputs_def addInput_def addOutputs_def addOutput_def new_Psbt_def
          example_defs)
  note all = assembler_sequence [where im = ?im and ep = ?ep and network = Mainnet
      and recipients = twoRecipients and changeAddress = "''bc1q''" and change = 21500
      and inputUTXOs = "[utxoA, utxoP]" and inputDerivation = None and witnessScript = "[1]"
      and taprootInputDerivation = None and taprootScript = "[2]" and internalKey = "[3]"
      and p = "projr (snd ?sw)" and q = "projr (snd ?mx)"]
  have same: "map sequence xs = [0xfffffffd, 0xfffffffd]"
    if "length xs = 2" and "\<forall>inp\<in>set xs. sequence inp = 0xfffffffd" for xs :: "PsbtInput list"
    using that by (cases xs; cases "tl xs") auto
  from all sw mx len show ?thesis
    by (auto intro!: same)
qed

text \<open>
  C8. In \<open>createMixedPsbt\<close> the assembled container has as many inputs as were selected,
  in the same order; an input whose address equals the change address is built the segwit
  way (\<open>witnessUtxo\<close> with the witness script, \<open>nonWitnessUtxo\<close> with the fetched parent
  transaction, \<open>bip32Derivation\<close>), every other input the taproot way (\<open>witnessUtxo\<close>
  with the taproot script, \<open>tapBip32Derivation\<close>, \<open>tapInternalKey\<close>).
\<close>

theorem createMixedPsbt_classification:
  assumes run: "snd (createMixedPsbt im ep network recipients changeAddress change inputUTXOs
                  inputDerivation witnessScript taprootInputDerivation taprootScript internalKey)
                = Inr p"
  shows "length (inputs p) = length inputUTXOs
       \<and> (\<forall>i<length inputUTXOs.
            hash (inputs p ! i) = txid (inputUTXOs ! i)
            \<and> index (inputs p ! i) = vout (inputUTXOs ! i)
            \<and> sequence (inputs p ! i) = 0xfffffffd
            \<and> (if utxo_address (inputUTXOs ! i) = changeAddress
               then witnessUtxo (inputs p ! i)
                      = \<lparr>script = witnessScript, witness_value = utxo_value (inputUTXOs ! i)\<rparr>
                    \<and> (\<exists>txHex. getTransactionHex ep (txid (inputUTXOs ! i)) = Inr txHex
                          \<and> nonWitnessUtxo (inputs p ! i) = Some (Buffer_from_hex im txHex))
                    \<and> bip32Derivation (inputs p ! i) = inputDerivation
                    \<and> tapBip32Derivation (inputs p ! i) = None
                    \<and> tapInternalKey (inputs p ! i) = None
               else witnessUtxo (inputs p ! i)
                      = \<lparr>script = taprootScript, witness_value = utxo_value (inputUTXOs ! i)\<rparr>
                    \<and> tapBip32Derivation (inputs p ! i) = taprootInputDerivation
                    \<and> tapInternalKey (inputs p ! i) = Some internalKey
                    \<and> nonWitnessUtxo (inputs p ! i) = None
                    \<and> bip32Derivation (inputs p ! i) = None))"
proof -
  from inputs_createMixedPsbt [OF run] obtain m where
    m: "fetchTransactionMap (getTransactionHex ep) (Buffer_from_hex im) inputUTXOs Map.empty = Inr m"
    and inp: "inputs p = map (\<lambda>u. if utxo_address u = changeAddress
                                   then segwitInput m witnessScript inputDerivation u
                                   else taprootInput taprootScript taprootInputDerivation internalKey u)
                            inputUTXOs"
    by blast
  have fetched: "\<exists>txHex. getTransactionHex ep (txid u) = Inr txHex
                   \<and> m (txid u) = Some (Buffer_from_hex im txHex)"
    if "u \<in> set inputUTXOs" for u
  proof -
    from fetchTransactionMap_found [OF m that] obtain txHex
      where hex: "getTransactionHex ep (txid u) = Inr txHex" by blast
    from that have "txid u \<in> txid ` set inputUTXOs" by simp
    with fetchTransactionMap_lookup [OF m, of "txid u"] hex
    have "m (txid u) = Some (Buffer_from_hex im txHex)" by simp
    with hex show ?thesis by blast
  qed
  show ?thesis
  proof (intro conjI allI impI)
    show "length (inputs p) = length inputUTXOs" by (simp add: inp)
  next
    fix i assume i: "i < length inputUTXOs"
    then show "hash (inputs p ! i) = txid (inputUTXOs ! i)"
      by (simp add: inp segwitInput_def taprootInput_def)
  next
    fix i assume i: "i < length inputUTXOs"
    then show "index (inputs p ! i) = vout (inputUTXOs ! i)"
      by (simp add: inp segwitInput_def taprootInput_def)
  next
    fix i assume i: "i < length inputUTXOs"
    then show "sequence (inputs p ! i) = 0xfffffffd"
      by (simp add: inp segwitInput_def taprootInput_def)
  next
    fix i assume i: "i < length inputUTXOs"
    then have "inputUTXOs ! i \<in> set inputUTXOs" by simp
    from fetched [OF this] i
    show "if utxo_address (inputUTXOs ! i) = changeAddress
               then witnessUtxo (inputs p ! i)
                      = \<lparr>script = witnessScript, witness_value = utxo_value (inputUTXOs ! i)\<rparr>
                    \<and> (\<exists>txHex. getTransactionHex ep (txid (inputUTXOs ! i)) = Inr txHex
                          \<and> nonWitnessUtxo (inputs p ! i) = Some (Buffer_from_hex im txHex))
                    \<and> bip32Derivation (inputs p ! i) = inputDerivation
                    \<and> tapBip32Derivation (inputs p ! i) = None
                    \<and> tapInternalKey (inputs p ! i) = None
               else witnessUtxo (inputs p ! i)
                      = \<lparr>script = taprootScript, witness_value = utxo_value (inputUTXOs ! i)\<rparr>
                    \<and> tapBip32Derivation (inputs p ! i) = taprootInputDerivation
                    \<and> tapInternalKey (inputs p ! i) = Some internalKey
                    \<and> nonWitnessUtxo (inputs p ! i) = None
                    \<and> bip32Derivation (inputs p ! i) = None"
      by (simp add: inp segwitInput_def taprootInput_def)
  qed
qed

text \<open>
  C8 at work: the first input belongs to the change address and gets the parent
  transaction; the second does not and gets the internal key.
\<close>

theorem createMixedPsbt_classification_witness:
  "length (inputs (projr (snd (createMixedPsbt (exampleImports 0 [] :: nat Imports)
          (exampleEsplora []) Mainnet twoRecipients ''bc1q'' 21500 [utxoA, utxoP] None [1] None [2] [3]))))
     = length [utxoA, utxoP]
   \<and> utxo_address ([utxoA, utxoP] ! 0) = ''bc1q''
   \<and> nonWitnessUtxo (inputs (projr (snd (createMixedPsbt (exampleImports 0 [] :: nat Imports)
          (exampleEsplora []) Mainnet twoRecipients ''bc1q'' 21500 [utxoA, utxoP] None [1] None [2] [3]))) ! 0)
       = Some [97, 97]
   \<and> tapInternalKey (inputs (projr (snd (createMixedPsbt (exampleImports 0 [] :: nat Imports)
          (exampleEsplora []) Mainnet twoRecipients ''bc1q'' 21500 [utxoA, utxoP] None [1] None [2] [3]))) ! 0)
       = None
   \<and> utxo_address ([utxoA, utxoP] ! 1) \<noteq> ''bc1q''
   \<and> nonWitnessUtxo (inputs (projr (snd (createMixedPsbt (exampleImports 0 [] :: nat Imports)
          (exampleEsplora []) Mainnet twoRecipients ''bc1q'' 21500 [utxoA, utxoP] None [1] None [2] [3]))) ! 1)
       = None
   \<and> tapInternalKey (inputs (projr (snd (createMixedPsbt (exampleImports 0 [] :: nat Imports)
          (exampleEsplora []) Mainnet twoRecipients ''bc1q'' 21500 [utxoA, utxoP] None [1] None [2] [3]))) ! 1)
       = Some [3]"
proof -
  let ?im = "exampleImports 0 [] :: nat Imports"
  let ?ep = "exampleEsplora []"
  let ?mx = "createMixedPsbt ?im ?ep Mainnet twoRecipients ''bc1q'' 21500 [utxoA, utxoP] None [1] None [2] [3]"
  have mx: "snd ?mx = Inr (projr (snd ?mx))"
    by (simp add: createMixedPsbt_def example_defs)
  note cl = createMixedPsbt_classification [OF mx]
  from cl have len: "length (inputs (projr (snd ?mx))) = length [utxoA, utxoP]"
    by blast
  have zero: "if utxo_address ([utxoA, utxoP] ! 0) = ''bc1q''
      then (\<exists>txHex. getTransactionHex ?ep (txid ([utxoA, utxoP] ! 0)) = Inr txHex
              \<and> nonWitnessUtxo (inputs (projr (snd ?mx)) ! 0) = Some (Buffer_from_hex ?im txHex))
           \<and> tapInternalKey (inputs (projr (snd ?mx)) ! 0) = None
      else nonWitnessUtxo (inputs (projr (snd ?mx)) ! 0) = None
           \<and> tapInternalKey (inputs (projr (snd ?mx)) ! 0) = Some [3]"
    using cl [THEN conjunct2, rule_format, of 0] by (simp split: if_splits)
  have one: "if utxo_address ([utxoA, utxoP] ! 1) = ''bc1q''
      then (\<exists>txHex. getTransactionHex ?ep (txid ([utxoA, utxoP] ! 1)) = Inr txHex
              \<and> nonWitnessUtxo (inputs (projr (snd ?mx)) ! 1) = Some (Buffer_from_hex ?im txHex))
           \<and> tapInternalKey (inputs (projr (snd ?mx)) ! 1) = None
      else nonWitnessUtxo (inputs (projr (snd ?mx)) ! 1) = None
           \<and> tapInternalKey (inputs (projr (snd ?mx)) ! 1) = Some [3]"
    using cl [THEN conjunct2, rule_format, of 1] by (simp split: if_splits)
  have a0: "utxo_address ([utxoA, utxoP] ! 0) = ''bc1q''" and a1: "utxo_address ([utxoA, utxoP] ! 1) \<noteq> ''bc1q''"
    by (simp_all add: example_defs)
  from zero a0 have z: "nonWitnessUtxo (inputs (projr (snd ?mx)) ! 0) = Some [97, 97]"
      "tapInternalKey (inputs (projr (snd ?mx)) ! 0) = None"
    by (auto simp: example_defs)
  from one a1 have o: "nonWitnessUtxo (inputs (projr (snd ?mx)) ! 1) = None"
      "tapInternalKey (inputs (projr (snd ?mx)) ! 1) = Some [3]"
    by (auto simp: example_defs)
  from len a0 a1 z o show ?thesis by blast
qed




section \<open>Claim about addSignatureToStxTransaction\<close>

text \<open>
  C9. For a transaction that deserializes and raw signature bytes whose hex form the
  signature encoding accepts, \<open>addSignatureToStxTransaction\<close> returns the deserialized
  transaction with the encoded signature in \<open>auth.spendingCondition.signature\<close>: reading
  the slot back gives the encoding of the supplied bytes, and every other part of the
  transaction, of its authorization and of its spending condition is as deserialized.
\<close>

theorem addSignatureToStxTransaction_roundtrip:
  assumes tx: "deserializeTransaction transaction = Inr t"
    and enc: "createMessageSignature (toString_hex signatureVRS) = Inr s"
  shows "\<exists>t'. addSignatureToStxTransaction deserializeTransaction createMessageSignature toString_hex
                  transaction signatureVRS = Inr t'
            \<and> signature (spendingCondition (auth t')) = s
            \<and> SpendingCondition.more (spendingCondition (auth t'))
                = SpendingCondition.more (spendingCondition (auth t))
            \<and> Authorization.more (auth t') = Authorization.more (auth t)
            \<and> StacksTransaction.more t' = StacksTransaction.more t"
  using tx enc by (simp add: addSignatureToStxTransaction_def)

text \<open>C9 at work on the example transaction and the two signature bytes 00 ff.\<close>

theorem addSignatureToStxTransaction_roundtrip_witness:
  "exampleDeserialize ''00''
     = Inr \<lparr>auth = \<lparr>spendingCondition = \<lparr>signature = ''unsigned'', \<dots> = 7\<rparr>, \<dots> = True\<rparr>,
            \<dots> = ''payload''\<rparr>
   \<and> exampleMessageSignature (exampleToHex [0, 255]) = Inr ''sig:00ff''
   \<and> addSignatureToStxTransaction exampleDeserialize exampleMessageSignature exampleToHex ''00'' [0, 255]
       = Inr \<lparr>auth = \<lparr>spendingCondition = \<lparr>signature = ''sig:00ff'', \<dots> = 7\<rparr>, \<dots> = True\<rparr>,
              \<dots> = ''payload''\<rparr>"
proof -
  have tx: "exampleDeserialize ''00''
     = Inr \<lparr>auth = \<lparr>spendingCondition = \<lparr>signature = ''unsigned'', \<dots> = 7\<rparr>, \<dots> = True\<rparr>,
            \<dots> = ''payload''\<rparr>"
    by (simp add: exampleDeserialize_def)
  have enc: "exampleMessageSignature (exampleToHex [0, 255]) = Inr ''sig:00ff''"
    by (simp add: exampleMessageSignature_def exampleToHex_def)
  from addSignatureToStxTransaction_roundtrip [where deserializeTransaction = exampleDeserialize
      and transaction = "''00''" and createMessageSignature = exampleMessageSignature
      and toString_hex = exampleToHex and signatureVRS = "[0, 255]", OF tx enc]
  obtain t' where
    "addSignatureToStxTransaction exampleDeserialize exampleMessageSignature exampleToHex ''00'' [0, 255] = Inr t'"
    "signature (spendingCondition (auth t')) = ''sig:00ff''"
    "SpendingCondition.more (spendingCondition (auth t')) = 7"
    "Authorization.more (auth t') = True"
    "StacksTransaction.more t' = ''payload''"
    by auto
  moreover from this have "t' = \<lparr>auth = \<lparr>spendingCondition = \<lparr>signature = ''sig:00ff'', \<dots> = 7\<rparr>, \<dots> = True\<rparr>,
              \<dots> = ''payload''\<rparr>"
    by (cases t'; cases "auth t'"; cases "spendingCondition (auth t')") auto
  ultimately show ?thesis using tx enc by simp
qed

end
